theory Spec2Isabelle
  imports Main "HOL-Library.Word"
begin

section \<open>Syntax trees\<close>

text \<open>
  The transformer \<^verbatim>\<open>storiesofTransformer\<close> works on the syntax tree that jscodeshift
  parses from \<^verbatim>\<open>file.source\<close>. The embedding keeps the node kinds the transformer
  inspects or builds and folds every other expression into \<open>OtherExpression\<close> (a node
  type name with its child expressions in traversal order). A module is the list of its
  top-level statements; expressions carry no nested statements, and a variable
  declaration has one declarator. \<open>StringLiteral\<close> is the parser's node for a quoted
  string, \<open>Literal\<close> the node that \<^verbatim>\<open>j.literal\<close> builds. \<open>Property key value\<close> stands
  both for a property of a parsed object literal and for the node \<^verbatim>\<open>j.property('init',
  key, value)\<close>; \<open>AssignmentExpression left right\<close> is an assignment with \<^verbatim>\<open>=\<close>. Names
  and string values are strings of which only equality, a prefix test and a prepended
  underscore are asked.
\<close>

datatype expr =
    Identifier string
  | StringLiteral string
  | Literal string
  | CallExpression expr "expr list"
  | MemberExpression expr expr
  | ObjectExpression "property list"
  | ArrayExpression "expr list"
  | AssignmentExpression expr expr
  | OtherExpression string "expr list"
and property =
    Property expr expr
  | SpreadElement expr

text \<open>Binding patterns: an identifier, an object pattern of (key name, bound name)
  pairs, or any other pattern, of which only the bound identifiers are kept.\<close>

datatype pattern =
    PatIdentifier string
  | ObjectPattern "(string \<times> string) list"
  | OtherPattern "string list"

datatype specifier =
    ImportSpecifier string string
  | ImportDefaultSpecifier string
  | ImportNamespaceSpecifier string

text \<open>The declaration under \<^verbatim>\<open>export\<close>: a variable declaration (kind and declarators),
  or a function, class or type declaration, of which only \<^verbatim>\<open>id.name\<close> is kept.\<close>

datatype exported =
    DeclVariables string "(pattern \<times> expr option) list"
  | DeclWithId string

text \<open>\<open>ExportNamedDeclaration\<close> holds the declaration, if any, and the specifiers as
  (local, exported) names. \<open>ExportDeclaration key val\<close> is the node built by
  \<^verbatim>\<open>j.exportDeclaration(false, j.variableDeclaration('const',
  [j.variableDeclarator(j.identifier(key), val)]))\<close>.\<close>

datatype stmt =
    ExpressionStatement expr
  | VariableDeclaration string pattern "expr option"
  | ImportDeclaration "specifier list" string
  | ExportDefaultDeclaration expr
  | ExportNamedDeclaration "exported option" "(string \<times> string) list"
  | ExportDeclaration string expr

type_synonym program = "stmt list"

text \<open>The transformer's \<^verbatim>\<open>file\<close> argument: \<^verbatim>\<open>file.path\<close>, and the tree \<^verbatim>\<open>j(file.source)\<close>
  of its source.\<close>

record fileInfo =
  filePath :: string
  fileRoot :: program

text \<open>What the transformer can throw: a \<^verbatim>\<open>TypeError\<close> for a property read on
  \<^verbatim>\<open>undefined\<close>, the error of a node builder that refuses its arguments, and the error
  of \<^verbatim>\<open>insertAfter\<close> on a node that is not an element of an array.\<close>

datatype error = TypeError | BuilderError | InsertError

text \<open>The two calls of \<^verbatim>\<open>warn\<close>, with the number of \<^verbatim>\<open>storiesOf\<close> calls and the path of
  the file that their messages quote: \<^verbatim>\<open>Found n 'storiesOf' calls but existing default
  export, SKIPPING: 'path'\<close> and \<^verbatim>\<open>[WARNING] Found n 'storiesOf' calls, PLEASE FIX BY
  HAND: 'path'\<close>.\<close>

datatype warning =
    SkippingWarning nat string
  | FixByHandWarning nat string

section \<open>Queries\<close>

text \<open>\<^verbatim>\<open>find\<close> visits a tree in pre-order, a node before its fields, the fields in
  declaration order (callee before arguments, object before property, key before
  value).\<close>

primrec nodes :: "expr \<Rightarrow> expr list"
  and propertyNodes :: "property \<Rightarrow> expr list" where
  "nodes (Identifier n) = [Identifier n]"
| "nodes (StringLiteral v) = [StringLiteral v]"
| "nodes (Literal v) = [Literal v]"
| "nodes (CallExpression callee args) =
     CallExpression callee args # nodes callee @ concat (map nodes args)"
| "nodes (MemberExpression ob p) = MemberExpression ob p # nodes ob @ nodes p"
| "nodes (ObjectExpression ps) = ObjectExpression ps # concat (map propertyNodes ps)"
| "nodes (ArrayExpression es) = ArrayExpression es # concat (map nodes es)"
| "nodes (AssignmentExpression l r) = AssignmentExpression l r # nodes l @ nodes r"
| "nodes (OtherExpression t es) = OtherExpression t es # concat (map nodes es)"
| "propertyNodes (Property k v) = nodes k @ nodes v"
| "propertyNodes (SpreadElement a) = nodes a"

text \<open>\<^verbatim>\<open>j(path).find(...)\<close> does not report \<^verbatim>\<open>path\<close> itself, only what lies under it.\<close>

definition descendants :: "expr \<Rightarrow> expr list" where
  "descendants e = tl (nodes e)"

fun isCallExpression :: "expr \<Rightarrow> bool" where
  "isCallExpression (CallExpression callee args) = True"
| "isCallExpression _ = False"

text \<open>\<^verbatim>\<open>call.node.callee.property && call.node.callee.property.name\<close>.\<close>

fun calleePropertyName :: "expr \<Rightarrow> string option" where
  "calleePropertyName (CallExpression (MemberExpression ob (Identifier n)) args) = Some n"
| "calleePropertyName _ = None"

text \<open>\<^verbatim>\<open>call.node.callee.name === 'storiesOf'\<close>.\<close>

fun isStoriesOf :: "expr \<Rightarrow> bool" where
  "isStoriesOf (CallExpression (Identifier n) args) = (n = ''storiesOf'')"
| "isStoriesOf _ = False"

fun arguments :: "expr \<Rightarrow> expr list" where
  "arguments (CallExpression callee args) = args"
| "arguments _ = []"

text \<open>The expressions directly under a statement, and the calls and identifiers of a
  module in document order.\<close>

fun declaratorInits :: "(pattern \<times> expr option) list \<Rightarrow> expr list" where
  "declaratorInits [] = []"
| "declaratorInits ((p, None) # ds) = declaratorInits ds"
| "declaratorInits ((p, Some e) # ds) = e # declaratorInits ds"

fun stmtExprs :: "stmt \<Rightarrow> expr list" where
  "stmtExprs (ExpressionStatement e) = [e]"
| "stmtExprs (VariableDeclaration k p None) = []"
| "stmtExprs (VariableDeclaration k p (Some e)) = [e]"
| "stmtExprs (ImportDeclaration specs src) = []"
| "stmtExprs (ExportDefaultDeclaration e) = [e]"
| "stmtExprs (ExportNamedDeclaration (Some (DeclVariables k ds)) specs) = declaratorInits ds"
| "stmtExprs (ExportNamedDeclaration d specs) = []"
| "stmtExprs (ExportDeclaration key val) = [val]"

definition stmtNodes :: "stmt \<Rightarrow> expr list" where
  "stmtNodes s = concat (map nodes (stmtExprs s))"

definition programCalls :: "program \<Rightarrow> expr list" where
  "programCalls body = filter isCallExpression (concat (map stmtNodes body))"

fun identifierNames :: "expr list \<Rightarrow> string list" where
  "identifierNames [] = []"
| "identifierNames (Identifier n # es) = n # identifierNames es"
| "identifierNames (e # es) = identifierNames es"

fun patternIdentifiers :: "pattern \<Rightarrow> string list" where
  "patternIdentifiers (PatIdentifier n) = [n]"
| "patternIdentifiers (ObjectPattern ps) = concat (map (\<lambda>(k, v). [k, v]) ps)"
| "patternIdentifiers (OtherPattern ns) = ns"

fun specifierIdentifiers :: "specifier \<Rightarrow> string list" where
  "specifierIdentifiers (ImportSpecifier imported local) = [imported, local]"
| "specifierIdentifiers (ImportDefaultSpecifier local) = [local]"
| "specifierIdentifiers (ImportNamespaceSpecifier local) = [local]"

fun stmtIdentifiers :: "stmt \<Rightarrow> string list" where
  "stmtIdentifiers (VariableDeclaration k p init) =
     patternIdentifiers p @ identifierNames (stmtNodes (VariableDeclaration k p init))"
| "stmtIdentifiers (ImportDeclaration specs src) = concat (map specifierIdentifiers specs)"
| "stmtIdentifiers (ExportNamedDeclaration (Some (DeclVariables k ds)) specs) =
     concat (map (\<lambda>(p, init). patternIdentifiers p) ds)
     @ identifierNames (stmtNodes (ExportNamedDeclaration (Some (DeclVariables k ds)) specs))
     @ concat (map (\<lambda>(l, e). [l, e]) specs)"
| "stmtIdentifiers (ExportNamedDeclaration (Some (DeclWithId n)) specs) =
     n # concat (map (\<lambda>(l, e). [l, e]) specs)"
| "stmtIdentifiers (ExportNamedDeclaration None specs) = concat (map (\<lambda>(l, e). [l, e]) specs)"
| "stmtIdentifiers (ExportDeclaration key val) = key # identifierNames (nodes val)"
| "stmtIdentifiers s = identifierNames (stmtNodes s)"

text \<open>\<^verbatim>\<open>root.find(j.Identifier)\<close>: the name of every identifier node of the module.\<close>

definition programIdentifiers :: "program \<Rightarrow> string list" where
  "programIdentifiers body = concat (map stmtIdentifiers body)"

section \<open>Per-story metadata\<close>

text \<open>\<^verbatim>\<open>p.key.name\<close>: defined for an identifier key only.\<close>

fun keyName :: "expr \<Rightarrow> string option" where
  "keyName (Identifier n) = Some n"
| "keyName _ = None"

text \<open>\<^verbatim>\<open>parameters.properties.find((p) => p.key.name === 'decorators')\<close>, returning the
  value of the property found. A spread element has no \<^verbatim>\<open>key\<close>, so reading
  \<^verbatim>\<open>p.key.name\<close> on it throws.\<close>

fun findDecorators :: "property list \<Rightarrow> error + expr option" where
  "findDecorators [] = Inr None"
| "findDecorators (SpreadElement a # ps) = Inl TypeError"
| "findDecorators (Property k v # ps) =
     (if keyName k = Some ''decorators'' then Inr (Some v) else findDecorators ps)"

text \<open>\<^verbatim>\<open>storyParams.properties.filter((p) => p.key.name !== 'decorators')\<close>.\<close>

fun filterOtherProperties :: "property list \<Rightarrow> error + property list" where
  "filterOtherProperties [] = Inr []"
| "filterOtherProperties (SpreadElement a # ps) = Inl TypeError"
| "filterOtherProperties (Property k v # ps) =
     (case filterOtherProperties ps of
        Inl e \<Rightarrow> Inl e
      | Inr rest \<Rightarrow>
          Inr (if keyName k \<noteq> Some ''decorators'' then Property k v # rest else rest))"

text \<open>The result is the pair (\<^verbatim>\<open>storyParams\<close>, \<^verbatim>\<open>storyDecorators\<close>), \<open>None\<close> for a
  field the returned object does not have. The function is only called on an existing
  third argument, so the branch for a missing one is not part of it.\<close>

fun extractDecorators :: "expr \<Rightarrow> error + (expr option \<times> expr option)" where
  "extractDecorators (ObjectExpression ps) =
     (case findDecorators ps of
        Inl e \<Rightarrow> Inl e
      | Inr None \<Rightarrow> Inr (Some (ObjectExpression ps), None)
      | Inr (Some storyDecorators) \<Rightarrow>
          (case filterOtherProperties ps of
             Inl e \<Rightarrow> Inl e
           | Inr rest \<Rightarrow>
               if length rest = 0 then Inr (None, Some storyDecorators)
               else Inr (Some (ObjectExpression rest), Some storyDecorators)))"
| "extractDecorators parameters = Inr (Some parameters, None)"

definition storyAnnotations :: "expr option \<Rightarrow> error + property list" where
  "storyAnnotations third =
     (case third of
        None \<Rightarrow> Inr []
      | Some originalStoryParams \<Rightarrow>
          (case extractDecorators originalStoryParams of
             Inl e \<Rightarrow> Inl e
           | Inr (storyParams, storyDecorators) \<Rightarrow>
               Inr ((case storyParams of
                       None \<Rightarrow> []
                     | Some sp \<Rightarrow> [Property (Identifier ''parameters'') sp])
                    @ (case storyDecorators of
                         None \<Rightarrow> []
                       | Some sd \<Rightarrow> [Property (Identifier ''decorators'') sd]))))"

section \<open>Story identifiers\<close>

text \<open>\<^verbatim>\<open>while (identifiers.has(key)) { key = `_${key}` }\<close>. The set of identifiers is
  kept as a list; only membership is asked of it.\<close>

function uniqueKey :: "string list \<Rightarrow> string \<Rightarrow> string" where
  "uniqueKey identifiers key =
     (if key \<in> set identifiers then uniqueKey identifiers (CHR ''_'' # key) else key)"
  by pat_completeness auto
termination
proof (relation "measure (\<lambda>(identifiers, key). card {k \<in> set identifiers. length key \<le> length k})")
  show "wf (measure (\<lambda>(identifiers, key). card {k \<in> set identifiers. length key \<le> length k}))"
    by simp
next
  fix identifiers :: "string list" and key :: string
  assume mem: "key \<in> set identifiers"
  have "{k \<in> set identifiers. length (CHR ''_'' # key) \<le> length k}
          \<subset> {k \<in> set identifiers. length key \<le> length k}"
  proof
    show "{k \<in> set identifiers. length (CHR ''_'' # key) \<le> length k}
          \<subseteq> {k \<in> set identifiers. length key \<le> length k}"
      by auto
    have "key \<in> {k \<in> set identifiers. length key \<le> length k}"
      using mem by simp
    moreover have "key \<notin> {k \<in> set identifiers. length (CHR ''_'' # key) \<le> length k}"
      by simp
    ultimately show "{k \<in> set identifiers. length (CHR ''_'' # key) \<le> length k}
          \<noteq> {k \<in> set identifiers. length key \<le> length k}"
      by blast
  qed
  then have "card {k \<in> set identifiers. length (CHR ''_'' # key) \<le> length k}
          < card {k \<in> set identifiers. length key \<le> length k}"
    by (intro psubset_card_mono) simp_all
  then show "((identifiers, CHR ''_'' # key), (identifiers, key))
          \<in> measure (\<lambda>(identifiers, key). card {k \<in> set identifiers. length key \<le> length k})"
    by simp
qed

declare uniqueKey.simps [simp del]

text \<open>An \<^verbatim>\<open>.add\<close> site: a call whose callee property is named \<^verbatim>\<open>add\<close>, with at least
  two arguments, the first a string literal. The result is the story name
  (\<^verbatim>\<open>arguments[0].value\<close>), the render expression (\<^verbatim>\<open>arguments[1]\<close>) and the third
  argument when \<^verbatim>\<open>arguments.length > 2\<close>.\<close>

fun addSite :: "expr \<Rightarrow> (string \<times> expr \<times> expr option) option" where
  "addSite (CallExpression (MemberExpression ob (Identifier p)) (StringLiteral name # val # others)) =
     (if p = ''add'' then Some (name, val, case others of [] \<Rightarrow> None | third # _ \<Rightarrow> Some third)
      else None)"
| "addSite _ = None"

text \<open>The body of \<^verbatim>\<open>adds.forEach\<close>: the export of the story under a fresh key, then the
  assignment of its annotations, if any. \<^verbatim>\<open>sanitizeName\<close> comes from a module that is
  not part of the sources and is a parameter. The comparison with
  \<^verbatim>\<open>storyNameFromExport(key)\<close> only clears \<^verbatim>\<open>name\<close>, which is not read afterwards.\<close>

fun emitStories ::
  "(string \<Rightarrow> string) \<Rightarrow> string list \<Rightarrow> (string \<times> expr \<times> expr option) list \<Rightarrow> error + stmt list"
where
  "emitStories sanitizeName identifiers [] = Inr []"
| "emitStories sanitizeName identifiers ((name, val, third) # adds) =
     (let key = uniqueKey identifiers (sanitizeName name) in
      case storyAnnotations third of
        Inl e \<Rightarrow> Inl e
      | Inr annotations \<Rightarrow>
          (case emitStories sanitizeName (key # identifiers) adds of
             Inl e \<Rightarrow> Inl e
           | Inr rest \<Rightarrow>
               Inr (ExportDeclaration key val
                    # (if length annotations > 0
                       then [ExpressionStatement
                               (AssignmentExpression
                                  (MemberExpression (Identifier key) (Identifier ''story''))
                                  (ObjectExpression annotations))]
                       else [])
                    @ rest)))"

section \<open>Converting one chain\<close>

text \<open>\<^verbatim>\<open>j.arrayExpression\<close> checks its elements; an \<^verbatim>\<open>undefined\<close> one (an
  \<^verbatim>\<open>.addDecorator()\<close> without argument) is refused.\<close>

fun arrayElements :: "expr option list \<Rightarrow> error + expr list" where
  "arrayElements [] = Inr []"
| "arrayElements (None # es) = Inl BuilderError"
| "arrayElements (Some e # es) =
     (case arrayElements es of Inl x \<Rightarrow> Inl x | Inr r \<Rightarrow> Inr (e # r))"

definition decoratorsExport :: "expr \<Rightarrow> error + property list" where
  "decoratorsExport path =
     (let decorators =
            map (\<lambda>add. case arguments add of [] \<Rightarrow> None | a # _ \<Rightarrow> Some a)
              (filter (\<lambda>call. calleePropertyName call = Some ''addDecorator'')
                 (filter isCallExpression (descendants path)))
      in if length decorators > 0
         then (case arrayElements (rev decorators) of
                 Inl e \<Rightarrow> Inl e
               | Inr elements \<Rightarrow>
                   Inr [Property (Identifier ''decorators'') (ArrayExpression elements)])
         else Inr [])"

text \<open>The \<^verbatim>\<open>forEach\<close> over the \<^verbatim>\<open>.addParameters\<close> sites: the properties of each
  site's first argument are pushed in reverse. An argument without \<^verbatim>\<open>properties\<close>, or
  no argument, throws.\<close>

fun pushParameters :: "expr list \<Rightarrow> error + property list" where
  "pushParameters [] = Inr []"
| "pushParameters (add # adds) =
     (case arguments add of
        ObjectExpression ps # _ \<Rightarrow>
          (case pushParameters adds of Inl e \<Rightarrow> Inl e | Inr r \<Rightarrow> Inr (rev ps @ r))
      | _ \<Rightarrow> Inl TypeError)"

definition parametersExport :: "expr \<Rightarrow> error + property list" where
  "parametersExport path =
     (case pushParameters
             (filter (\<lambda>call. calleePropertyName call = Some ''addParameters'')
                (filter isCallExpression (descendants path))) of
        Inl e \<Rightarrow> Inl e
      | Inr parameters \<Rightarrow>
          if length parameters > 0
          then Inr [Property (Identifier ''parameters'') (ObjectExpression (rev parameters))]
          else Inr [])"

definition excludeStoriesExport :: "string list \<Rightarrow> property list" where
  "excludeStoriesExport originalExports =
     (if length originalExports > 0
      then [Property (Identifier ''excludeStories'') (ArrayExpression (map Literal originalExports))]
      else [])"

text \<open>A \<^verbatim>\<open>storiesOf\<close> call with at least one argument, the first a string literal; the
  result is the title, \<^verbatim>\<open>arguments[0].value\<close>.\<close>

fun storiesOfTitle :: "expr \<Rightarrow> string option" where
  "storiesOfTitle (CallExpression (Identifier n) (StringLiteral title # args)) =
     (if n = ''storiesOf'' then Some title else None)"
| "storiesOfTitle _ = None"

text \<open>The default export pushed for every titled \<^verbatim>\<open>storiesOf\<close> call under the
  path.\<close>

definition defaultStatements :: "expr \<Rightarrow> property list \<Rightarrow> stmt list" where
  "defaultStatements path extraExports =
     map (\<lambda>title. ExportDefaultDeclaration
            (ObjectExpression (Property (Identifier ''title'') (Literal title) # extraExports)))
       (List.map_filter storiesOfTitle (filter isCallExpression (descendants path)))"

text \<open>\<^verbatim>\<open>adds\<close>: the \<^verbatim>\<open>.add\<close> sites under the path, reversed, then the path itself.\<close>

definition pathAdds :: "expr \<Rightarrow> (string \<times> expr \<times> expr option) list" where
  "pathAdds path =
     rev (List.map_filter addSite (filter isCallExpression (descendants path)))
     @ List.map_filter addSite [path]"

text \<open>The array \<^verbatim>\<open>statements\<close> of \<^verbatim>\<open>convertToModuleExports\<close>, as pushed: the default
  exports, then the stories.\<close>

definition convertedStatements ::
  "(string \<Rightarrow> string) \<Rightarrow> program \<Rightarrow> expr \<Rightarrow> string list \<Rightarrow> error + stmt list"
where
  "convertedStatements sanitizeName root path originalExports =
     (case decoratorsExport path of
        Inl e \<Rightarrow> Inl e
      | Inr decorators \<Rightarrow>
          (case parametersExport path of
             Inl e \<Rightarrow> Inl e
           | Inr parameters \<Rightarrow>
               (let extraExports = decorators @ parameters @ excludeStoriesExport originalExports
                in case emitStories sanitizeName (programIdentifiers root) (pathAdds path) of
                     Inl e \<Rightarrow> Inl e
                   | Inr stories \<Rightarrow> Inr (defaultStatements path extraExports @ stories))))"

text \<open>\<^verbatim>\<open>stmt.insertAfter(s)\<close> and \<^verbatim>\<open>j(stmt).remove()\<close> for the statement at index \<open>i\<close> of
  the module body.\<close>

definition insertAfter :: "nat \<Rightarrow> stmt \<Rightarrow> program \<Rightarrow> program" where
  "insertAfter i s body = take (Suc i) body @ s # drop (Suc i) body"

definition removeAt :: "nat \<Rightarrow> program \<Rightarrow> program" where
  "removeAt i body = take i body @ drop (Suc i) body"

definition convertToModuleExports ::
  "(string \<Rightarrow> string) \<Rightarrow> program \<Rightarrow> nat \<Rightarrow> expr \<Rightarrow> string list \<Rightarrow> error + program"
where
  "convertToModuleExports sanitizeName root i path originalExports =
     (case convertedStatements sanitizeName root path originalExports of
        Inl e \<Rightarrow> Inl e
      | Inr statements \<Rightarrow> Inr (removeAt i (fold (insertAfter i) (rev statements) root)))"

section \<open>The module\<close>

text \<open>\<^verbatim>\<open>originalExports\<close>: the names pushed for one \<^verbatim>\<open>ExportNamedDeclaration\<close>.\<close>

fun declaratorNames :: "pattern \<Rightarrow> string list" where
  "declaratorNames (PatIdentifier name) = [name]"
| "declaratorNames (ObjectPattern properties) = map fst properties"
| "declaratorNames (OtherPattern ns) = []"

fun exportedNames :: "stmt \<Rightarrow> string list" where
  "exportedNames (ExportNamedDeclaration (Some (DeclVariables k declarations)) specifiers) =
     concat (map (\<lambda>(p, init). declaratorNames p) declarations)"
| "exportedNames (ExportNamedDeclaration (Some (DeclWithId name)) specifiers) = [name]"
| "exportedNames (ExportNamedDeclaration None specifiers) = map snd specifiers"
| "exportedNames s = []"

definition originalExportsOf :: "program \<Rightarrow> string list" where
  "originalExportsOf body = concat (map exportedNames body)"

text \<open>The \<^verbatim>\<open>.add\<close> site a statement offers to the last query on \<^verbatim>\<open>root\<close>: an
  \<^verbatim>\<open>.add\<close> site whose parent is the expression statement or the variable declarator.
  Under an \<^verbatim>\<open>export\<close> the declaration of the site is not an element of the module
  body.\<close>

datatype site = NoSite | SiteInBody expr | SiteUnderExport expr

fun topLevelSite :: "stmt \<Rightarrow> site" where
  "topLevelSite (ExpressionStatement e) = (if addSite e \<noteq> None then SiteInBody e else NoSite)"
| "topLevelSite (VariableDeclaration k p (Some e)) =
     (if addSite e \<noteq> None then SiteInBody e else NoSite)"
| "topLevelSite (ExportNamedDeclaration (Some (DeclVariables k ds)) specs) =
     (case filter (\<lambda>e. addSite e \<noteq> None) (declaratorInits ds) of
        [] \<Rightarrow> NoSite
      | e # _ \<Rightarrow> SiteUnderExport e)"
| "topLevelSite s = NoSite"

text \<open>The \<^verbatim>\<open>forEach\<close> that converts the sites found in the tree as parsed. \<open>todo\<close> holds
  the statements of that tree not yet visited; they are the last statements of the
  current \<open>root\<close>, since a conversion only replaces the statement of its own site. For
  a site under \<^verbatim>\<open>export\<close>, \<^verbatim>\<open>insertAfter\<close> finds that the parent of the declaration is
  not an array and throws.\<close>

fun convertEach ::
  "(string \<Rightarrow> string) \<Rightarrow> string list \<Rightarrow> stmt list \<Rightarrow> program \<Rightarrow> error + program"
where
  "convertEach sanitizeName originalExports [] root = Inr root"
| "convertEach sanitizeName originalExports (s # todo) root =
     (case topLevelSite s of
        NoSite \<Rightarrow> convertEach sanitizeName originalExports todo root
      | SiteInBody path \<Rightarrow>
          (case convertToModuleExports sanitizeName root (length root - Suc (length todo))
                  path originalExports of
             Inl e \<Rightarrow> Inl e
           | Inr root' \<Rightarrow> convertEach sanitizeName originalExports todo root')
      | SiteUnderExport path \<Rightarrow>
          (case convertedStatements sanitizeName root path originalExports of
             Inl e \<Rightarrow> Inl e
           | Inr statements \<Rightarrow> Inl InsertError))"

text \<open>\<^verbatim>\<open>spec.parent.node.source.value.startsWith('@storybook/')\<close>.\<close>

definition startsWith :: "string \<Rightarrow> string \<Rightarrow> bool" where
  "startsWith s p = (take (length p) s = p)"

fun isStoriesOfSpecifier :: "string \<Rightarrow> specifier \<Rightarrow> bool" where
  "isStoriesOfSpecifier source (ImportSpecifier imported local) =
     (imported = ''storiesOf'' \<and> startsWith source ''@storybook/'')"
| "isStoriesOfSpecifier source spec = False"

text \<open>The \<^verbatim>\<open>forEach\<close> over the matching specifiers of one import declaration, on the
  specifiers the declaration has left; \<open>None\<close> once the declaration itself is
  removed.\<close>

fun removeSpecifiers :: "specifier list \<Rightarrow> specifier list \<Rightarrow> specifier list option" where
  "removeSpecifiers [] specifiers = Some specifiers"
| "removeSpecifiers (spec # specs) specifiers =
     (if length specifiers > 1 then removeSpecifiers specs (remove1 spec specifiers) else None)"

fun pruneImport :: "stmt \<Rightarrow> stmt list" where
  "pruneImport (ImportDeclaration specifiers source) =
     (case removeSpecifiers (filter (isStoriesOfSpecifier source) specifiers) specifiers of
        None \<Rightarrow> []
      | Some specifiers' \<Rightarrow> [ImportDeclaration specifiers' source])"
| "pruneImport s = [s]"

definition removeStoriesOfImport :: "program \<Rightarrow> program" where
  "removeStoriesOfImport body = concat (map pruneImport body)"

text \<open>The tree after the conversions and the removal of the import: what the transformer
  prints when no default export stopped it.\<close>

definition rewriteRoot :: "(string \<Rightarrow> string) \<Rightarrow> program \<Rightarrow> error + program" where
  "rewriteRoot sanitizeName root =
     (case convertEach sanitizeName (originalExportsOf root) root root of
        Inl e \<Rightarrow> Inl e
      | Inr root' \<Rightarrow> Inr (removeStoriesOfImport root'))"

section \<open>Source text\<close>

text \<open>Printed source is a JavaScript string, a sequence of 16-bit code units.
  \<^verbatim>\<open>source.replace(/const stories = storiesOf\(.*/, '')\<close> deletes the first match: the
  literal text and what follows it up to the next line terminator, which \<^verbatim>\<open>.\<close> does
  not match.\<close>

type_synonym sourceText = "16 word list"

definition codeUnits :: "string \<Rightarrow> sourceText" where
  "codeUnits s = map of_char s"

definition lineTerminator :: "16 word \<Rightarrow> bool" where
  "lineTerminator c = (c = 0x0A \<or> c = 0x0D \<or> c = 0x2028 \<or> c = 0x2029)"

definition isPrefix :: "sourceText \<Rightarrow> sourceText \<Rightarrow> bool" where
  "isPrefix p s = (take (length p) s = p)"

fun replaceFirstLine :: "sourceText \<Rightarrow> sourceText \<Rightarrow> sourceText" where
  "replaceFirstLine fragment [] = []"
| "replaceFirstLine fragment (c # cs) =
     (if isPrefix fragment (c # cs)
      then dropWhile (\<lambda>c. \<not> lineTerminator c) (drop (length fragment) (c # cs))
      else c # replaceFirstLine fragment cs)"

definition cleanup :: "sourceText \<Rightarrow> sourceText" where
  "cleanup source = replaceFirstLine (codeUnits ''const stories = storiesOf('') source"

text \<open>\<^verbatim>\<open>root.toSource\<close> (recast) and \<^verbatim>\<open>prettify\<close> are not part of the sources; they are
  parameters. \<open>None\<close> stands for \<^verbatim>\<open>toSource()\<close> without options.\<close>

record printOptions =
  trailingComma :: bool
  quote :: string
  tabWidth :: nat

definition styled :: printOptions where
  "styled = \<lparr>trailingComma = True, quote = ''single'', tabWidth = 2\<rparr>"

definition initialStoriesOf :: "program \<Rightarrow> expr list" where
  "initialStoriesOf body = filter isStoriesOf (programCalls body)"

fun isExportDefault :: "stmt \<Rightarrow> bool" where
  "isExportDefault (ExportDefaultDeclaration e) = True"
| "isExportDefault s = False"

definition defaultExports :: "program \<Rightarrow> stmt list" where
  "defaultExports body = filter isExportDefault body"

text \<open>The result is the warnings passed to \<^verbatim>\<open>warn\<close> and the text returned.\<close>

definition storiesofTransformer ::
  "(string \<Rightarrow> string) \<Rightarrow> (printOptions option \<Rightarrow> program \<Rightarrow> sourceText)
     \<Rightarrow> (sourceText \<Rightarrow> sourceText) \<Rightarrow> fileInfo \<Rightarrow> error + (warning list \<times> sourceText)"
where
  "storiesofTransformer sanitizeName toSource prettify file' =
     (if length (defaultExports (fileRoot file')) > 0
      then Inr (if length (initialStoriesOf (fileRoot file')) > 0
                then [SkippingWarning (length (initialStoriesOf (fileRoot file'))) (filePath file')]
                else [],
                toSource None (fileRoot file'))
      else (case rewriteRoot sanitizeName (fileRoot file') of
              Inl e \<Rightarrow> Inl e
            | Inr root' \<Rightarrow>
                (let source = toSource (Some styled) root' in
                 if length (initialStoriesOf (fileRoot file')) > 1
                 then Inr ([FixByHandWarning (length (initialStoriesOf (fileRoot file')))
                              (filePath file')], source)
                 else Inr ([], prettify (cleanup source)))))"

section \<open>Vocabulary of the statements\<close>

text \<open>The definitions of this section are not part of the transformer. They name what the
  statements about it speak of.\<close>

text \<open>The kinds of statement a conversion pushes: a default export, the export of a
  story, the assignment of its annotations. \<open>storyStatements\<close> are the ones pushed for one
  story.\<close>

fun isEmitted :: "stmt \<Rightarrow> bool" where
  "isEmitted (ExportDefaultDeclaration e) = True"
| "isEmitted (ExportDeclaration key val) = True"
| "isEmitted (ExpressionStatement (AssignmentExpression l r)) = True"
| "isEmitted s = False"

definition storyStatements :: "string \<Rightarrow> expr \<Rightarrow> property list \<Rightarrow> stmt list" where
  "storyStatements key val annotations =
     ExportDeclaration key val
     # (if annotations = [] then []
        else [ExpressionStatement
                (AssignmentExpression (MemberExpression (Identifier key) (Identifier ''story''))
                   (ObjectExpression annotations))])"

text \<open>The exports of stories among some statements: their identifiers, and the
  identifiers with the expressions they bind.\<close>

fun exportKeys :: "stmt list \<Rightarrow> string list" where
  "exportKeys [] = []"
| "exportKeys (ExportDeclaration key val # sts) = key # exportKeys sts"
| "exportKeys (s # sts) = exportKeys sts"


text \<open>The identifiers the synthesizer gives to a list of story names, one after the
  other, each registered before the next, and a key behind \<open>n\<close> underscores.\<close>

fun storyKeys :: "(string \<Rightarrow> string) \<Rightarrow> string list \<Rightarrow> string list \<Rightarrow> string list" where
  "storyKeys sanitizeName identifiers [] = []"
| "storyKeys sanitizeName identifiers (name # names) =
     (let key = uniqueKey identifiers (sanitizeName name)
      in key # storyKeys sanitizeName (key # identifiers) names)"

definition underscores :: "nat \<Rightarrow> string \<Rightarrow> string" where
  "underscores n key = replicate n CHR ''_'' @ key"

text \<open>Import declarations: any, and those from a source outside \<^verbatim>\<open>@storybook/\<close>.
  \<open>importAfterRewrite\<close> restates the removal of the \<^verbatim>\<open>storiesOf\<close> import in the words of
  the specification, with the test of the code: the declaration goes when all its
  specifiers are \<^verbatim>\<open>storiesOf\<close> named specifiers, otherwise it keeps the others.\<close>

fun isImportDeclaration :: "stmt \<Rightarrow> bool" where
  "isImportDeclaration (ImportDeclaration specifiers source) = True"
| "isImportDeclaration s = False"

fun foreignImport :: "stmt \<Rightarrow> bool" where
  "foreignImport (ImportDeclaration specifiers source) = (\<not> startsWith source ''@storybook/'')"
| "foreignImport s = False"

fun importAfterRewrite :: "stmt \<Rightarrow> stmt list" where
  "importAfterRewrite (ImportDeclaration specifiers source) =
     (if filter (isStoriesOfSpecifier source) specifiers = []
      then [ImportDeclaration specifiers source]
      else if filter (\<lambda>spec. \<not> isStoriesOfSpecifier source spec) specifiers = [] then []
      else [ImportDeclaration
              (filter (\<lambda>spec. \<not> isStoriesOfSpecifier source spec) specifiers) source])"
| "importAfterRewrite s = [s]"

text \<open>The text the cleanup looks for, and whether a text occurs in a source.\<close>

definition storiesFragment :: sourceText where
  "storiesFragment = codeUnits ''const stories = storiesOf(''"

fun occursIn :: "sourceText \<Rightarrow> sourceText \<Rightarrow> bool" where
  "occursIn fragment [] = isPrefix fragment []"
| "occursIn fragment (c # cs) = (isPrefix fragment (c # cs) \<or> occursIn fragment cs)"

text \<open>Call chains. \<open>methodCall receiver name args\<close> is \<^verbatim>\<open>receiver.name(args)\<close> and
  \<open>storiesOfCall title\<close> is \<^verbatim>\<open>storiesOf(title, module)\<close>. A chain is a receiver followed
  by links in source order: \<^verbatim>\<open>.add(name, val)\<close> or \<^verbatim>\<open>.add(name, val, third)\<close>,
  \<^verbatim>\<open>.addDecorator(d)\<close>, \<^verbatim>\<open>.addParameters({ps})\<close>. \<open>linkCalls\<close> are the call expressions
  of the links, innermost first.\<close>

definition methodCall :: "expr \<Rightarrow> string \<Rightarrow> expr list \<Rightarrow> expr" where
  "methodCall receiver name args = CallExpression (MemberExpression receiver (Identifier name)) args"

definition storiesOfCall :: "string \<Rightarrow> expr" where
  "storiesOfCall title = CallExpression (Identifier ''storiesOf'') [StringLiteral title, Identifier ''module'']"


















text \<open>Object literals whose properties all have a key, the properties named
  \<^verbatim>\<open>decorators\<close>, and the annotations of a story whose third argument is such a literal:
  the other properties as \<^verbatim>\<open>parameters\<close>, unless there is none, then the value of the
  first \<^verbatim>\<open>decorators\<close> property as \<^verbatim>\<open>decorators\<close>.\<close>

fun isKeyed :: "property \<Rightarrow> bool" where
  "isKeyed (Property k v) = True"
| "isKeyed (SpreadElement a) = False"

fun namedDecorators :: "property \<Rightarrow> bool" where
  "namedDecorators (Property k v) = (keyName k = Some ''decorators'')"
| "namedDecorators (SpreadElement a) = False"

fun propertyValues :: "property list \<Rightarrow> expr list" where
  "propertyValues [] = []"
| "propertyValues (Property k v # ps) = v # propertyValues ps"
| "propertyValues (SpreadElement a # ps) = propertyValues ps"

definition keyedAnnotations :: "property list \<Rightarrow> property list" where
  "keyedAnnotations ps =
     (case propertyValues (filter namedDecorators ps) of
        [] \<Rightarrow> [Property (Identifier ''parameters'') (ObjectExpression ps)]
      | d # ds \<Rightarrow>
          (if filter (\<lambda>p. \<not> namedDecorators p) ps = [] then []
           else [Property (Identifier ''parameters'')
                   (ObjectExpression (filter (\<lambda>p. \<not> namedDecorators p) ps))])
          @ [Property (Identifier ''decorators'') d])"

section \<open>Example modules\<close>

text \<open>\<^verbatim>\<open>sanitizeName\<close> on the story names of the examples, which are identifiers that
  start with a capital letter and that it leaves as they are.\<close>

definition plainName :: "string \<Rightarrow> string" where
  "plainName name = name"

text \<open>A default export next to a chain.\<close>

definition conflictModule :: fileInfo where
  "conflictModule =
     \<lparr>filePath = ''Button.stories.js'',
      fileRoot =
        [ExportDefaultDeclaration (ObjectExpression [Property (Identifier ''title'') (StringLiteral ''Button'')]),
         ExpressionStatement
           (methodCall (storiesOfCall ''Button'') ''add'' [StringLiteral ''A'', Identifier ''fA''])]\<rparr>"



text \<open>Imports of \<^verbatim>\<open>storiesOf\<close>: beside a default specifier, and from another module.\<close>

definition mixedImports :: program where
  "mixedImports =
     [ImportDeclaration [ImportDefaultSpecifier ''sb'', ImportSpecifier ''storiesOf'' ''storiesOf'']
        ''@storybook/react'',
      ImportDeclaration [ImportSpecifier ''storiesOf'' ''legacy''] ''./legacy'',
      ExpressionStatement
        (methodCall (storiesOfCall ''Button'') ''add'' [StringLiteral ''A'', Identifier ''fA''])]"

definition legacyImport :: program where
  "legacyImport =
     [ImportDeclaration [ImportSpecifier ''storiesOf'' ''storiesOf''] ''./legacy'',
      ExpressionStatement
        (methodCall (storiesOfCall ''Button'') ''add'' [StringLiteral ''A'', Identifier ''fA''])]"

text \<open>The chain root bound to \<^verbatim>\<open>stories\<close>, and to another name.\<close>

definition storiesBinding :: fileInfo where
  "storiesBinding =
     \<lparr>filePath = ''Button.stories.js'',
      fileRoot =
        [VariableDeclaration ''const'' (PatIdentifier ''stories'') (Some (storiesOfCall ''Button'')),
         ExpressionStatement
           (methodCall (Identifier ''stories'') ''add'' [StringLiteral ''A'', Identifier ''fA''])]\<rparr>"

definition storiesBindingRewritten :: program where
  "storiesBindingRewritten =
     [VariableDeclaration ''const'' (PatIdentifier ''stories'') (Some (storiesOfCall ''Button'')),
      ExportDeclaration ''A'' (Identifier ''fA'')]"





text \<open>Two chains, the second with a story named like an identifier of the first; two
  stories of one name; a spread element in the third argument of \<^verbatim>\<open>.add\<close>.\<close>

definition staleIdentifier :: program where
  "staleIdentifier =
     [ExpressionStatement
        (methodCall (CallExpression (Identifier ''bar'') [Identifier ''Foo'']) ''add''
           [StringLiteral ''A'', Identifier ''fA'']),
      ExpressionStatement
        (methodCall (Identifier ''x'') ''add'' [StringLiteral ''Foo'', Identifier ''fB''])]"

definition collidingChain :: expr where
  "collidingChain =
     methodCall
       (methodCall (storiesOfCall ''Button'') ''add'' [StringLiteral ''Primary'', Identifier ''fA''])
       ''add'' [StringLiteral ''Primary'', Identifier ''fB'']"

definition collidingNames :: program where
  "collidingNames =
     [VariableDeclaration ''const'' (PatIdentifier ''Primary'') (Some (Literal ''1'')),
      ExpressionStatement
        collidingChain]"

definition spreadParameters :: program where
  "spreadParameters =
     [ExpressionStatement
        (methodCall (storiesOfCall ''Button'') ''add''
           [StringLiteral ''A'', Identifier ''fA'',
            ObjectExpression
              [SpreadElement (Identifier ''shared''),
               Property (Identifier ''decorators'') (ArrayExpression [Identifier ''d'']) ]])]"






section \<open>Replacing the statement of a chain\<close>

text \<open>The insertions and the removal put the statements pushed in the place of the
  statement of the site, in the order they were pushed.\<close>

lemma fold_insertAfter:
  "fold (insertAfter (length pre)) xs (pre @ s # post) = pre @ s # rev xs @ post"
  by (induction xs arbitrary: post) (simp_all add: insertAfter_def)

lemma replace_statement:
  "removeAt (length pre) (fold (insertAfter (length pre)) (rev sts) (pre @ s # post)) = pre @ sts @ post"
  by (simp add: fold_insertAfter removeAt_def)

lemma convertToModuleExports_splice:
  "convertToModuleExports snz (pre @ s # post) (length pre) path oe =
     (case convertedStatements snz (pre @ s # post) path oe of
        Inl e \<Rightarrow> Inl e | Inr sts \<Rightarrow> Inr (pre @ sts @ post))"
  by (simp add: convertToModuleExports_def replace_statement split: sum.splits)

section \<open>What a conversion pushes\<close>

lemma emitStories_Cons:
  assumes "emitStories snz ids ((name, val, third) # adds) = Inr sts"
  obtains annotations rest where
    "storyAnnotations third = Inr annotations"
    "emitStories snz (uniqueKey ids (snz name) # ids) adds = Inr rest"
    "sts = storyStatements (uniqueKey ids (snz name)) val annotations @ rest"
  using assms
  by (auto simp: Let_def storyStatements_def split: sum.splits if_splits)

lemma storyStatements_emitted: "\<forall>s\<in>set (storyStatements key val annotations). isEmitted s"
  by (simp add: storyStatements_def)

lemma emitStories_emitted:
  "emitStories snz ids adds = Inr sts \<Longrightarrow> \<forall>s\<in>set sts. isEmitted s"
proof (induction adds arbitrary: ids sts)
  case Nil
  then show ?case by simp
next
  case (Cons a adds)
  obtain name val third where a: "a = (name, val, third)" by (cases a)
  from Cons.prems obtain annotations rest where
    rest: "emitStories snz (uniqueKey ids (snz name) # ids) adds = Inr rest"
    and sts: "sts = storyStatements (uniqueKey ids (snz name)) val annotations @ rest"
    unfolding a by (rule emitStories_Cons)
  from Cons.IH [OF rest] storyStatements_emitted show ?case
    unfolding sts by auto
qed

lemma convertedStatements_Inr:
  assumes "convertedStatements snz root path oe = Inr sts"
  obtains decorators parameters stories where
    "decoratorsExport path = Inr decorators"
    "parametersExport path = Inr parameters"
    "emitStories snz (programIdentifiers root) (pathAdds path) = Inr stories"
    "sts = defaultStatements path (decorators @ parameters @ excludeStoriesExport oe) @ stories"
  using assms
  by (auto simp: convertedStatements_def Let_def split: sum.splits)

lemma defaultStatements_emitted: "\<forall>s\<in>set (defaultStatements path extra). isEmitted s"
  by (auto simp: defaultStatements_def)

lemma convertedStatements_emitted:
  assumes "convertedStatements snz root path oe = Inr sts"
  shows "\<forall>s\<in>set sts. isEmitted s"
proof -
  from assms obtain decorators parameters stories where
    st: "emitStories snz (programIdentifiers root) (pathAdds path) = Inr stories"
    and sts: "sts = defaultStatements path (decorators @ parameters @ excludeStoriesExport oe) @ stories"
    by (rule convertedStatements_Inr)
  from emitStories_emitted [OF st] defaultStatements_emitted show ?thesis
    unfolding sts by auto
qed



section \<open>The loop over the sites\<close>





lemma convertEach_filter:
  assumes "convertEach snz oe todo (pre @ todo) = Inr out"
    and "\<And>s. isEmitted s \<Longrightarrow> \<not> P s"
    and "\<And>s. P s \<Longrightarrow> topLevelSite s = NoSite"
  shows "filter P out = filter P (pre @ todo)"
  using assms(1)
proof (induction todo arbitrary: pre)
  case Nil
  then show ?case by simp
next
  case (Cons s todo)
  have i: "length (pre @ s # todo) - Suc (length todo) = length pre" by simp
  show ?case
  proof (cases "topLevelSite s")
    case NoSite
    with Cons.prems have "convertEach snz oe todo ((pre @ [s]) @ todo) = Inr out"
      by simp
    then have "filter P out = filter P ((pre @ [s]) @ todo)" by (rule Cons.IH)
    then show ?thesis by simp
  next
    case (SiteInBody path)
    with Cons.prems(1) obtain sts where
      sts: "convertedStatements snz (pre @ s # todo) path oe = Inr sts"
      and run: "convertEach snz oe todo ((pre @ sts) @ todo) = Inr out"
      by (auto simp: i convertToModuleExports_splice simp del: length_append split: sum.splits)
    have "filter P sts = []"
      using convertedStatements_emitted [OF sts] assms(2) by (auto simp: filter_empty_conv)
    moreover have "\<not> P s" using assms(3) [of s] SiteInBody by auto
    moreover have "filter P out = filter P ((pre @ sts) @ todo)" using run by (rule Cons.IH)
    ultimately show ?thesis by simp
  next
    case (SiteUnderExport path)
    with Cons.prems(1) show ?thesis by (simp split: sum.splits)
  qed
qed

section \<open>The removal of the import\<close>

lemma removeSpecifiers_filter:
  "ms = filter M cur \<Longrightarrow>
   removeSpecifiers ms cur =
     (if ms \<noteq> [] \<and> filter (\<lambda>x. \<not> M x) cur = [] then None else Some (filter (\<lambda>x. \<not> M x) cur))"
proof (induction ms arbitrary: cur)
  case Nil
  then have "filter (\<lambda>x. \<not> M x) cur = cur"
    by (metis filter_True filter_empty_conv)
  then show ?case by simp
next
  case (Cons m ms)
  have "m \<in> set (filter M cur)"
    using Cons.prems by (metis list.set_intros(1))
  then have mM: "M m" and mcur: "m \<in> set cur"
    by simp_all
  show ?case
  proof (cases "length cur > 1")
    case True
    have f1: "ms = filter M (remove1 m cur)"
      using Cons.prems by (metis filter_remove1 remove1.simps(2))
    have f2: "filter (\<lambda>x. \<not> M x) (remove1 m cur) = filter (\<lambda>x. \<not> M x) cur"
      using mM by (simp add: filter_remove1 remove1_idem)
    have f3: "filter (\<lambda>x. \<not> M x) cur = [] \<Longrightarrow> ms \<noteq> []"
    proof -
      assume a: "filter (\<lambda>x. \<not> M x) cur = []"
      then have "filter M cur = cur" by (simp add: filter_empty_conv filter_id_conv)
      then have "m # ms = cur" using Cons.prems by simp
      then show "ms \<noteq> []" using True by auto
    qed
    show ?thesis
      using True Cons.IH [OF f1] f2 f3 by auto
  next
    case False
    then have "cur = [m]" using mcur by (cases cur) auto
    then show ?thesis using mM by simp
  qed
qed

lemma pruneImport_spec: "pruneImport s = importAfterRewrite s"
proof (cases s)
  case (ImportDeclaration specifiers source)
  have "filter (isStoriesOfSpecifier source) specifiers = [] \<Longrightarrow>
        filter (\<lambda>x. \<not> isStoriesOfSpecifier source x) specifiers = specifiers"
    by (simp add: filter_empty_conv filter_id_conv)
  then show ?thesis
    unfolding ImportDeclaration
    by (auto simp: removeSpecifiers_filter [OF refl])
qed simp_all


lemma filter_import_prune:
  "filter isImportDeclaration (concat (map pruneImport body)) =
   concat (map pruneImport (filter isImportDeclaration body))"
proof (induction body)
  case Nil
  then show ?case by simp
next
  case (Cons s body)
  then show ?case
    by (cases s) (simp_all split: option.splits)
qed

lemma filter_foreign_prune:
  "filter foreignImport (concat (map pruneImport body)) = filter foreignImport body"
proof (induction body)
  case Nil
  then show ?case by simp
next
  case (Cons s body)
  show ?case
  proof (cases s)
    case (ImportDeclaration specifiers source)
    show ?thesis
    proof (cases "startsWith source ''@storybook/''")
      case True
      then show ?thesis
        using Cons.IH unfolding ImportDeclaration by (simp split: option.splits)
    next
      case False
      then have "filter (isStoriesOfSpecifier source) specifiers = []"
        by (auto simp: filter_empty_conv elim: isStoriesOfSpecifier.elims)
      then show ?thesis
        using Cons.IH False unfolding ImportDeclaration by simp
    qed
  qed (use Cons.IH in simp_all)
qed

lemma emitted_not_import: "isEmitted s \<Longrightarrow> \<not> isImportDeclaration s"
  by (induction s rule: isEmitted.induct) simp_all

lemma import_no_site: "isImportDeclaration s \<Longrightarrow> topLevelSite s = NoSite"
  by (cases s) simp_all

lemma foreign_is_import: "foreignImport s \<Longrightarrow> isImportDeclaration s"
  by (cases s) simp_all




section \<open>A module with one chain\<close>

lemma rewriteRoot_Inr:
  assumes "rewriteRoot snz body = Inr out"
  obtains mid where "convertEach snz (originalExportsOf body) body ([] @ body) = Inr mid"
    "out = removeStoriesOfImport mid"
  using assms by (auto simp: rewriteRoot_def split: sum.splits)



section \<open>The guards\<close>

text \<open>
  Claim C2. A module with a default export and at least one \<^verbatim>\<open>storiesOf\<close> call: the
  transformer warns that it skips the file and returns \<^verbatim>\<open>root.toSource()\<close> of the tree
  as parsed; no statement is inserted, deleted or modified.
\<close>

theorem default_export_guard:
  assumes "defaultExports (fileRoot f) \<noteq> []" and "initialStoriesOf (fileRoot f) \<noteq> []"
  shows "storiesofTransformer sanitizeName toSource prettify f =
     Inr ([SkippingWarning (length (initialStoriesOf (fileRoot f))) (filePath f)],
          toSource None (fileRoot f))"
  using assms by (simp add: storiesofTransformer_def)

text \<open>The guard at a module that has both.\<close>

theorem default_export_guard_witness:
  "\<forall>toSource prettify.
     storiesofTransformer plainName toSource prettify conflictModule =
       Inr ([SkippingWarning 1 ''Button.stories.js''], toSource None (fileRoot conflictModule))"
proof -
  have a: "defaultExports (fileRoot conflictModule) \<noteq> []" by code_simp
  have b: "initialStoriesOf (fileRoot conflictModule) \<noteq> []" by code_simp
  have c: "length (initialStoriesOf (fileRoot conflictModule)) = 1" by code_simp
  have d: "filePath conflictModule = ''Button.stories.js''" by (simp add: conflictModule_def)
  show ?thesis using default_export_guard [OF a b] c d by simp
qed




section \<open>Imports after a rewrite\<close>

text \<open>
  Claim C10. The removal only looks at import declarations whose source starts with
  \<^verbatim>\<open>@storybook/\<close>: after a rewrite, the import declarations from any other module are
  the ones of the input, unchanged and in the same order, a \<^verbatim>\<open>storiesOf\<close> specifier
  among them included.
\<close>

theorem foreign_imports_kept:
  assumes "rewriteRoot sanitizeName body = Inr out"
  shows "filter foreignImport out = filter foreignImport body"
proof -
  from assms obtain mid where
    mid: "convertEach sanitizeName (originalExportsOf body) body ([] @ body) = Inr mid"
    and out: "out = removeStoriesOfImport mid"
    by (rule rewriteRoot_Inr)
  have "filter foreignImport mid = filter foreignImport ([] @ body)"
    using mid
    by (rule convertEach_filter)
       (auto dest: foreign_is_import emitted_not_import import_no_site)
  then show ?thesis
    by (simp add: out removeStoriesOfImport_def filter_foreign_prune)
qed

text \<open>\<^verbatim>\<open>import { storiesOf } from './legacy'\<close> survives the rewrite of the chain.\<close>

theorem foreign_imports_kept_witness:
  "rewriteRoot plainName legacyImport =
     Inr [ImportDeclaration [ImportSpecifier ''storiesOf'' ''storiesOf''] ''./legacy'',
          ExportDefaultDeclaration (ObjectExpression [Property (Identifier ''title'') (Literal ''Button'')]),
          ExportDeclaration ''A'' (Identifier ''fA'')]
   \<and> filter foreignImport
        [ImportDeclaration [ImportSpecifier ''storiesOf'' ''storiesOf''] ''./legacy'',
         ExportDefaultDeclaration (ObjectExpression [Property (Identifier ''title'') (Literal ''Button'')]),
         ExportDeclaration ''A'' (Identifier ''fA'')]
      = [ImportDeclaration [ImportSpecifier ''storiesOf'' ''storiesOf''] ''./legacy'']"
proof -
  have a: "rewriteRoot plainName legacyImport =
     Inr [ImportDeclaration [ImportSpecifier ''storiesOf'' ''storiesOf''] ''./legacy'',
          ExportDefaultDeclaration (ObjectExpression [Property (Identifier ''title'') (Literal ''Button'')]),
          ExportDeclaration ''A'' (Identifier ''fA'')]"
    by code_simp
  have b: "filter foreignImport legacyImport =
     [ImportDeclaration [ImportSpecifier ''storiesOf'' ''storiesOf''] ''./legacy'']"
    by code_simp
  show ?thesis using foreign_imports_kept [OF a] a b by simp
qed

text \<open>
  Claim C7, as stated, fails. In
  \<^verbatim>\<open>import sb, { storiesOf } from '@storybook/react';
  import { storiesOf as legacy } from './legacy';
  storiesOf('Button', module).add('A', fA);\<close>
  \<^verbatim>\<open>storiesOf\<close> is the only named specifier of the first import, yet the declaration
  stays, with its default specifier: the test is \<^verbatim>\<open>specifiers.length > 1\<close>, over
  specifiers of every kind. The second import keeps its \<^verbatim>\<open>storiesOf\<close> specifier, its
  source not being a \<^verbatim>\<open>@storybook/\<close> module.
\<close>

theorem only_named_specifier_kept:
  "length (initialStoriesOf mixedImports) = 1 \<and> defaultExports mixedImports = []
   \<and> rewriteRoot plainName mixedImports =
       Inr [ImportDeclaration [ImportDefaultSpecifier ''sb''] ''@storybook/react'',
            ImportDeclaration [ImportSpecifier ''storiesOf'' ''legacy''] ''./legacy'',
            ExportDefaultDeclaration (ObjectExpression [Property (Identifier ''title'') (Literal ''Button'')]),
            ExportDeclaration ''A'' (Identifier ''fA'')]"
  by code_simp

text \<open>
  Claim C7, amended. After a rewrite the import declarations of the module are those of
  the input, each treated as \<open>importAfterRewrite\<close> says: a declaration with no
  \<^verbatim>\<open>storiesOf\<close> named specifier from a \<^verbatim>\<open>@storybook/\<close> source is kept as it is; one
  whose specifiers are all such specifiers is deleted; any other keeps exactly its other
  specifiers, default and namespace specifiers included.
\<close>

theorem imports_after_rewrite:
  assumes "rewriteRoot sanitizeName body = Inr out"
  shows "filter isImportDeclaration out =
         concat (map importAfterRewrite (filter isImportDeclaration body))"
proof -
  from assms obtain mid where
    mid: "convertEach sanitizeName (originalExportsOf body) body ([] @ body) = Inr mid"
    and out: "out = removeStoriesOfImport mid"
    by (rule rewriteRoot_Inr)
  have "filter isImportDeclaration mid = filter isImportDeclaration ([] @ body)"
    using mid
    by (rule convertEach_filter) (auto dest: emitted_not_import import_no_site)
  then have "filter isImportDeclaration out =
      concat (map pruneImport (filter isImportDeclaration body))"
    by (simp add: out removeStoriesOfImport_def filter_import_prune)
  also have "pruneImport = importAfterRewrite"
    by (rule ext) (rule pruneImport_spec)
  finally show ?thesis .
qed

text \<open>The imports of the module above.\<close>

theorem imports_after_rewrite_witness:
  "filter isImportDeclaration
     [ImportDeclaration [ImportDefaultSpecifier ''sb''] ''@storybook/react'',
      ImportDeclaration [ImportSpecifier ''storiesOf'' ''legacy''] ''./legacy'',
      ExportDefaultDeclaration (ObjectExpression [Property (Identifier ''title'') (Literal ''Button'')]),
      ExportDeclaration ''A'' (Identifier ''fA'')]
   = concat (map importAfterRewrite (filter isImportDeclaration mixedImports))"
proof -
  have a: "rewriteRoot plainName mixedImports =
       Inr [ImportDeclaration [ImportDefaultSpecifier ''sb''] ''@storybook/react'',
            ImportDeclaration [ImportSpecifier ''storiesOf'' ''legacy''] ''./legacy'',
            ExportDefaultDeclaration (ObjectExpression [Property (Identifier ''title'') (Literal ''Button'')]),
            ExportDeclaration ''A'' (Identifier ''fA'')]"
    by code_simp
  show ?thesis using imports_after_rewrite [OF a] .
qed

section \<open>The textual pass\<close>

lemma replaceFirstLine_absent:
  "\<not> occursIn fragment src \<Longrightarrow> replaceFirstLine fragment src = src"
  by (induction src) simp_all

lemma isPrefix_append: "isPrefix p (p @ rest)"
  by (simp add: isPrefix_def)

lemma isPrefix_long:
  "length p \<le> length a \<Longrightarrow> isPrefix p (a @ b) = isPrefix p a"
  by (simp add: isPrefix_def)

lemma replaceFirstLine_first:
  assumes "fragment \<noteq> []" and "\<not> occursIn fragment (before @ butlast fragment)"
  shows "replaceFirstLine fragment (before @ fragment @ rest) =
         before @ dropWhile (\<lambda>c. \<not> lineTerminator c) rest"
  using assms(2)
proof (induction before)
  case Nil
  obtain c cs where f: "fragment = c # cs" using assms(1) by (cases fragment) auto
  have "isPrefix (c # cs) (c # cs @ rest)"
    using isPrefix_append [of "c # cs" rest] by simp
  then show ?case unfolding f by simp
next
  case (Cons b before)
  have len: "length fragment \<le> length (b # before @ butlast fragment)"
    by simp
  have short: "\<not> isPrefix fragment (b # before @ butlast fragment)"
    using Cons.prems by simp
  have "butlast fragment @ [last fragment] = fragment"
    using assms(1) by simp
  then have eq: "b # before @ fragment @ rest =
      (b # before @ butlast fragment) @ ([last fragment] @ rest)"
    by (metis append.assoc append_Cons)
  have no: "\<not> isPrefix fragment (b # before @ fragment @ rest)"
    unfolding eq isPrefix_long [OF len] by (fact short)
  have "\<not> occursIn fragment (before @ butlast fragment)"
    using Cons.prems by simp
  then show ?case using no Cons.IH by simp
qed

lemma dropWhile_line:
  assumes "list_all (\<lambda>c. \<not> lineTerminator c) line"
    and "case rest of [] \<Rightarrow> True | c # cs \<Rightarrow> lineTerminator c"
  shows "dropWhile (\<lambda>c. \<not> lineTerminator c) (line @ rest) = rest"
proof -
  have "dropWhile (\<lambda>c. \<not> lineTerminator c) (line @ rest) = dropWhile (\<lambda>c. \<not> lineTerminator c) rest"
    using assms(1) by (simp add: dropWhile_append2 list_all_iff)
  also have "\<dots> = rest" using assms(2) by (cases rest) simp_all
  finally show ?thesis .
qed

lemma storiesFragment_nonempty: "storiesFragment \<noteq> []"
  by (simp add: storiesFragment_def codeUnits_def)

text \<open>
  Claim C8, as stated, fails. The pattern of the textual pass spells the binding name
  \<^verbatim>\<open>stories\<close>; the leftover of a chain bound to any other name, here
  \<^verbatim>\<open>const s = storiesOf(title, module);\<close>, passes through it untouched.
\<close>

theorem other_binding_not_stripped:
  "cleanup (codeUnits ''const s = storiesOf(title, module);'')
     = codeUnits ''const s = storiesOf(title, module);''"
  by code_simp

text \<open>
  Claim C8, amended. When no default export stops the transformer and the module has at
  most one \<^verbatim>\<open>storiesOf\<close> call, the rewritten tree is printed with the style options,
  the textual pass \<open>cleanup\<close> runs over the printed source, and \<^verbatim>\<open>prettify\<close> over its
  result. The pass leaves a source without the text \<^verbatim>\<open>const stories = storiesOf(\<close> as
  it is; otherwise it deletes the first occurrence of that text together with the rest
  of its line, up to the next line terminator, and nothing else.
\<close>

theorem textual_cleanup:
  assumes "defaultExports (fileRoot f) = []"
    and "length (initialStoriesOf (fileRoot f)) \<le> 1"
    and "rewriteRoot sanitizeName (fileRoot f) = Inr root'"
  shows "storiesofTransformer sanitizeName toSource prettify f =
           Inr ([], prettify (cleanup (toSource (Some styled) root')))
     \<and> (\<forall>src. \<not> occursIn storiesFragment src \<longrightarrow> cleanup src = src)
     \<and> (\<forall>before line rest.
           \<not> occursIn storiesFragment (before @ butlast storiesFragment)
           \<and> list_all (\<lambda>c. \<not> lineTerminator c) line
           \<and> (case rest of [] \<Rightarrow> True | c # cs \<Rightarrow> lineTerminator c)
           \<longrightarrow> cleanup (before @ storiesFragment @ line @ rest) = before @ rest)"
proof (intro conjI allI impI)
  show "storiesofTransformer sanitizeName toSource prettify f =
           Inr ([], prettify (cleanup (toSource (Some styled) root')))"
    using assms by (simp add: storiesofTransformer_def)
next
  fix src
  assume "\<not> occursIn storiesFragment src"
  then show "cleanup src = src"
    by (simp add: cleanup_def storiesFragment_def replaceFirstLine_absent)
next
  fix before line rest
  assume a: "\<not> occursIn storiesFragment (before @ butlast storiesFragment)
           \<and> list_all (\<lambda>c. \<not> lineTerminator c) line
           \<and> (case rest of [] \<Rightarrow> True | c # cs \<Rightarrow> lineTerminator c)"
  have "cleanup (before @ storiesFragment @ line @ rest) =
        before @ dropWhile (\<lambda>c. \<not> lineTerminator c) (line @ rest)"
    unfolding cleanup_def storiesFragment_def [symmetric]
    using a by (intro replaceFirstLine_first storiesFragment_nonempty) simp
  then show "cleanup (before @ storiesFragment @ line @ rest) = before @ rest"
    using a by (simp add: dropWhile_line)
qed

text \<open>The module \<^verbatim>\<open>const stories = storiesOf('Button', module); stories.add('A', fA);\<close>
  and a printed source with the leftover on its first line.\<close>

theorem textual_cleanup_witness:
  "\<forall>toSource prettify.
     storiesofTransformer plainName toSource prettify storiesBinding =
       Inr ([], prettify (cleanup (toSource (Some styled) storiesBindingRewritten)))
     \<and> cleanup (storiesFragment @ codeUnits ''title, module);'' @ 0x0A # codeUnits ''export const A = fA;'')
         = 0x0A # codeUnits ''export const A = fA;''"
proof (intro allI)
  fix toSource :: "printOptions option \<Rightarrow> program \<Rightarrow> sourceText"
    and prettify :: "sourceText \<Rightarrow> sourceText"
  have a: "defaultExports (fileRoot storiesBinding) = []" by code_simp
  have b: "length (initialStoriesOf (fileRoot storiesBinding)) \<le> 1" by code_simp
  have c: "rewriteRoot plainName (fileRoot storiesBinding) = Inr storiesBindingRewritten"
    by code_simp
  have p1: "\<not> occursIn storiesFragment ([] @ butlast storiesFragment)" by code_simp
  have p2: "list_all (\<lambda>c. \<not> lineTerminator c) (codeUnits ''title, module);'')" by code_simp
  have p3: "case 0x0A # codeUnits ''export const A = fA;'' of [] \<Rightarrow> True
            | c # cs \<Rightarrow> lineTerminator c"
    by (simp add: lineTerminator_def)
  note t = textual_cleanup [where toSource = toSource and prettify = prettify, OF a b c]
  have "cleanup ([] @ storiesFragment @ codeUnits ''title, module);''
            @ 0x0A # codeUnits ''export const A = fA;'')
          = [] @ 0x0A # codeUnits ''export const A = fA;''"
    using t p1 p2 p3 by blast
  then show "storiesofTransformer plainName toSource prettify storiesBinding =
       Inr ([], prettify (cleanup (toSource (Some styled) storiesBindingRewritten)))
     \<and> cleanup (storiesFragment @ codeUnits ''title, module);'' @ 0x0A # codeUnits ''export const A = fA;'')
         = 0x0A # codeUnits ''export const A = fA;''"
    using t by simp
qed

section \<open>Identifiers of the stories\<close>

lemma uniqueKey_fresh: "uniqueKey ids key \<notin> set ids"
proof (induction ids key rule: uniqueKey.induct)
  case (1 identifiers key)
  then show ?case by (subst uniqueKey.simps) simp
qed

lemma uniqueKey_underscores:
  "\<exists>n. uniqueKey ids key = underscores n key \<and> (\<forall>m<n. underscores m key \<in> set ids)"
proof (induction ids key rule: uniqueKey.induct)
  case (1 identifiers key)
  show ?case
  proof (cases "key \<in> set identifiers")
    case True
    from 1 [OF True] obtain n where
      n: "uniqueKey identifiers (CHR ''_'' # key) = underscores n (CHR ''_'' # key)"
      and below: "\<forall>m<n. underscores m (CHR ''_'' # key) \<in> set identifiers"
      by blast
    have shift: "\<And>m. underscores m (CHR ''_'' # key) = underscores (Suc m) key"
      by (simp add: underscores_def replicate_app_Cons_same)
    have "uniqueKey identifiers key = underscores (Suc n) key"
      using True n by (subst uniqueKey.simps) (simp add: shift)
    moreover have "\<forall>m<Suc n. underscores m key \<in> set identifiers"
    proof (intro allI impI)
      fix m assume "m < Suc n"
      show "underscores m key \<in> set identifiers"
      proof (cases m)
        case 0
        then show ?thesis using True by (simp add: underscores_def)
      next
        case (Suc k)
        then have "k < n" using \<open>m < Suc n\<close> by simp
        then have "underscores k (CHR ''_'' # key) \<in> set identifiers"
          using below by blast
        then show ?thesis unfolding Suc shift .
      qed
    qed
    ultimately show ?thesis by blast
  next
    case False
    then have "uniqueKey identifiers key = underscores 0 key"
      by (subst uniqueKey.simps) (simp add: underscores_def)
    then show ?thesis by blast
  qed
qed

lemma exportKeys_append: "exportKeys (xs @ ys) = exportKeys xs @ exportKeys ys"
  by (induction xs rule: exportKeys.induct) simp_all

lemma exportKeys_storyStatements: "exportKeys (storyStatements key val annotations) = [key]"
  by (simp add: storyStatements_def)

lemma exportKeys_defaultStatements: "exportKeys (defaultStatements path extra) = []"
proof -
  have "\<And>f ts. exportKeys (map (\<lambda>t. ExportDefaultDeclaration (f t)) ts) = []"
  proof -
    fix f :: "'a \<Rightarrow> expr" and ts :: "'a list"
    show "exportKeys (map (\<lambda>t. ExportDefaultDeclaration (f t)) ts) = []"
      by (induction ts) simp_all
  qed
  then show ?thesis by (simp add: defaultStatements_def)
qed

lemma emitStories_keys:
  "emitStories snz ids adds = Inr sts \<Longrightarrow> exportKeys sts = storyKeys snz ids (map fst adds)"
proof (induction adds arbitrary: ids sts)
  case Nil
  then show ?case by simp
next
  case (Cons a adds)
  obtain name val third where a: "a = (name, val, third)" by (cases a)
  from Cons.prems obtain annotations rest where
    rest: "emitStories snz (uniqueKey ids (snz name) # ids) adds = Inr rest"
    and sts: "sts = storyStatements (uniqueKey ids (snz name)) val annotations @ rest"
    unfolding a by (rule emitStories_Cons)
  from Cons.IH [OF rest] show ?case
    unfolding sts a
    by (simp add: exportKeys_append exportKeys_storyStatements Let_def)
qed

lemma storyKeys_fresh:
  "distinct (storyKeys snz ids names) \<and> set (storyKeys snz ids names) \<inter> set ids = {}"
proof (induction names arbitrary: ids)
  case Nil
  then show ?case by simp
next
  case (Cons name names)
  have "uniqueKey ids (snz name) \<notin> set ids" by (rule uniqueKey_fresh)
  with Cons [of "uniqueKey ids (snz name) # ids"] show ?case
    by (auto simp: Let_def)
qed

text \<open>
  Claim C5, as stated, fails. The identifiers are collected again from the current tree at
  every conversion. In
  \<^verbatim>\<open>bar(Foo).add('A', fA); x.add('Foo', fB);\<close>
  the first conversion replaces the only statement that mentions \<^verbatim>\<open>Foo\<close>, so the second
  conversion exports the story \<^verbatim>\<open>'Foo'\<close> under the identifier \<^verbatim>\<open>Foo\<close>, which occurs in
  the file.
\<close>

theorem synthesized_identifier_reused:
  "defaultExports staleIdentifier = [] \<and> initialStoriesOf staleIdentifier = []
   \<and> ''Foo'' \<in> set (programIdentifiers staleIdentifier)
   \<and> rewriteRoot plainName staleIdentifier =
       Inr [ExportDeclaration ''A'' (Identifier ''fA''),
            ExportDeclaration ''Foo'' (Identifier ''fB'')]"
  by code_simp

text \<open>
  Claim C5, amended. The identifiers that one conversion exports its stories under are
  the ones \<open>storyKeys\<close> computes from the identifiers of the tree at that moment (the
  file as parsed, for the first or only chain): they are pairwise distinct and none of
  them occurs in that tree. Each is the sanitized name behind the least number of
  underscores that is not registered yet, and is registered before the next story.
\<close>

theorem story_identifiers_fresh:
  assumes "convertedStatements sanitizeName root path originalExports = Inr statements"
  shows "exportKeys statements =
           storyKeys sanitizeName (programIdentifiers root) (map fst (pathAdds path))
     \<and> distinct (exportKeys statements)
     \<and> set (exportKeys statements) \<inter> set (programIdentifiers root) = {}
     \<and> (\<forall>identifiers key. \<exists>n.
           uniqueKey identifiers key = underscores n key
           \<and> uniqueKey identifiers key \<notin> set identifiers
           \<and> (\<forall>m<n. underscores m key \<in> set identifiers))"
proof -
  from assms obtain decorators parameters stories where
    st: "emitStories sanitizeName (programIdentifiers root) (pathAdds path) = Inr stories"
    and sts: "statements =
      defaultStatements path (decorators @ parameters @ excludeStoriesExport originalExports) @ stories"
    by (rule convertedStatements_Inr)
  have keys: "exportKeys statements =
      storyKeys sanitizeName (programIdentifiers root) (map fst (pathAdds path))"
    unfolding sts
    by (simp add: exportKeys_append exportKeys_defaultStatements emitStories_keys [OF st])
  show ?thesis
    using keys storyKeys_fresh [of sanitizeName "programIdentifiers root" "map fst (pathAdds path)"]
      uniqueKey_underscores uniqueKey_fresh
    by metis
qed

text \<open>Two stories named \<^verbatim>\<open>Primary\<close> in a module that binds \<^verbatim>\<open>Primary\<close>.\<close>

theorem story_identifiers_fresh_witness:
  "convertedStatements plainName collidingNames collidingChain [] =
     Inr [ExportDefaultDeclaration (ObjectExpression [Property (Identifier ''title'') (Literal ''Button'')]),
          ExportDeclaration ''_Primary'' (Identifier ''fA''),
          ExportDeclaration ''__Primary'' (Identifier ''fB'')]
   \<and> storyKeys plainName (programIdentifiers collidingNames) (map fst (pathAdds collidingChain))
       = [''_Primary'', ''__Primary'']
   \<and> uniqueKey [''Primary'', ''_Primary''] ''Primary'' = underscores 2 ''Primary''"
proof -
  have a: "convertedStatements plainName collidingNames collidingChain [] =
     Inr [ExportDefaultDeclaration (ObjectExpression [Property (Identifier ''title'') (Literal ''Button'')]),
          ExportDeclaration ''_Primary'' (Identifier ''fA''),
          ExportDeclaration ''__Primary'' (Identifier ''fB'')]"
    by code_simp
  have b: "uniqueKey [''Primary'', ''_Primary''] ''Primary'' = underscores 2 ''Primary''"
    by code_simp
  from story_identifiers_fresh [OF a] have
    "exportKeys [ExportDefaultDeclaration (ObjectExpression [Property (Identifier ''title'') (Literal ''Button'')]),
          ExportDeclaration ''_Primary'' (Identifier ''fA''),
          ExportDeclaration ''__Primary'' (Identifier ''fB'')]
     = storyKeys plainName (programIdentifiers collidingNames) (map fst (pathAdds collidingChain))"
    by blast
  then show ?thesis using a b by simp
qed

section \<open>Annotations of a story\<close>

text \<open>A story without third argument gets no assignment. Where the third argument is an
  object literal whose properties all have keys, the annotations are \<open>keyedAnnotations\<close>;
  a spread element anywhere in the literal makes \<^verbatim>\<open>extractDecorators\<close> throw.\<close>

lemma findDecorators_keyed:
  "list_all isKeyed ps \<Longrightarrow>
   findDecorators ps =
     Inr (case propertyValues (filter namedDecorators ps) of [] \<Rightarrow> None | d # ds \<Rightarrow> Some d)"
  by (induction ps rule: findDecorators.induct) simp_all

lemma filterOtherProperties_keyed:
  "list_all isKeyed ps \<Longrightarrow>
   filterOtherProperties ps = Inr (filter (\<lambda>p. \<not> namedDecorators p) ps)"
  by (induction ps rule: filterOtherProperties.induct) simp_all

lemma storyAnnotations_keyed:
  assumes "list_all isKeyed ps"
  shows "storyAnnotations (Some (ObjectExpression ps)) = Inr (keyedAnnotations ps)"
  using assms
  by (simp add: storyAnnotations_def keyedAnnotations_def findDecorators_keyed
      filterOtherProperties_keyed split: list.splits)

lemma storyAnnotations_none: "storyAnnotations None = Inr []"
  by (simp add: storyAnnotations_def)

lemma story_without_third_argument:
  assumes "emitStories snz ids ((name, val, None) # adds) = Inr sts"
  shows "\<exists>rest. sts = ExportDeclaration (uniqueKey ids (snz name)) val # rest
           \<and> emitStories snz (uniqueKey ids (snz name) # ids) adds = Inr rest"
  using assms by (auto simp: storyAnnotations_none Let_def split: sum.splits)

lemma story_with_keyed_object:
  assumes "list_all isKeyed ps"
    and "emitStories snz ids ((name, val, Some (ObjectExpression ps)) # adds) = Inr sts"
  shows "\<exists>rest. sts = storyStatements (uniqueKey ids (snz name)) val (keyedAnnotations ps) @ rest
           \<and> emitStories snz (uniqueKey ids (snz name) # ids) adds = Inr rest"
proof -
  from assms(2) obtain annotations rest where
    "storyAnnotations (Some (ObjectExpression ps)) = Inr annotations"
    "emitStories snz (uniqueKey ids (snz name) # ids) adds = Inr rest"
    "sts = storyStatements (uniqueKey ids (snz name)) val annotations @ rest"
    by (rule emitStories_Cons)
  then show ?thesis
    using storyAnnotations_keyed [OF assms(1)] by simp
qed

lemma spread_always_throws:
  "\<not> list_all isKeyed ps \<Longrightarrow> extractDecorators (ObjectExpression ps) = Inl TypeError"
proof -
  assume a: "\<not> list_all isKeyed ps"
  have f: "\<And>ps. \<not> list_all isKeyed ps \<Longrightarrow> filterOtherProperties ps = Inl TypeError"
  proof -
    fix ps :: "property list"
    show "\<not> list_all isKeyed ps \<Longrightarrow> filterOtherProperties ps = Inl TypeError"
      by (induction ps rule: filterOtherProperties.induct) simp_all
  qed
  have g: "\<And>ps. \<not> list_all isKeyed ps \<Longrightarrow>
      findDecorators ps = Inl TypeError \<or> (\<exists>d. findDecorators ps = Inr (Some d))"
  proof -
    fix ps :: "property list"
    show "\<not> list_all isKeyed ps \<Longrightarrow>
      findDecorators ps = Inl TypeError \<or> (\<exists>d. findDecorators ps = Inr (Some d))"
      by (induction ps rule: findDecorators.induct) simp_all
  qed
  from g [OF a] f [OF a] show ?thesis by auto
qed

text \<open>
  Claim C6 at \<^verbatim>\<open>storiesOf('Button', module).add('A', fA, { ...shared, decorators: [d] })\<close>:
  the third argument is an object literal with a \<^verbatim>\<open>decorators\<close> property, and the
  conversion throws on the spread element, which has no \<^verbatim>\<open>key\<close>, instead of emitting
  the story with its decorators and parameters.
\<close>

theorem spread_parameters_throw:
  "extractDecorators
     (ObjectExpression
        [SpreadElement (Identifier ''shared''),
         Property (Identifier ''decorators'') (ArrayExpression [Identifier ''d''])]) = Inl TypeError
   \<and> rewriteRoot plainName spreadParameters = Inl TypeError"
  by code_simp

section \<open>Chains\<close>










































section \<open>Order of the stories and of the metadata\<close>







section \<open>A second application\<close>









end
